theory Spec2Isabelle
  imports Complex_Main
begin

section \<open>Data of the bot\<close>

text \<open>
  The handlers of \<^verbatim>\<open>app/handlers\<close> talk to the messaging platform, to the
  persistence layer and to the logger. In this embedding a handler is a function from
  the results of those collaborators to the list of calls it makes (its trace, in program
  order) and its result: a returned value or a raised exception.
\<close>

text \<open>
  \<^verbatim>\<open>datetime.timedelta\<close>: a duration, counted in microseconds. Comparison of two
  timedeltas is comparison of these counts.
\<close>

type_synonym timedelta = int

definition timedelta_days :: "int \<Rightarrow> timedelta" where
  "timedelta_days d = d * 86400000000"

definition timedelta_hours :: "int \<Rightarrow> timedelta" where
  "timedelta_hours h = h * 3600000000"

definition timedelta_minutes :: "int \<Rightarrow> timedelta" where
  "timedelta_minutes m = m * 60000000"

text \<open>\<^verbatim>\<open>app.models.User\<close>; \<open>user_id\<close> is the model's \<^verbatim>\<open>id\<close> column.\<close>

record User =
  user_id :: int
  tg_id :: int
  fullname :: string
  mention_link :: string

text \<open>\<^verbatim>\<open>app.models.Chat\<close>.\<close>

record Chat =
  chat_id :: int

text \<open>
  \<^verbatim>\<open>aiogram.types.User\<close>; \<open>tg_user_id\<close> is its \<^verbatim>\<open>id\<close>, which is
  \<^verbatim>\<open>None\<close> for a user known by a text mention only.
\<close>

record tg_User =
  tg_user_id :: "int option"
  username :: "string option"
  is_bot :: bool
  url :: string

text \<open>
  \<^verbatim>\<open>aiogram.types.Message\<close>: its text, the id of the sender (the actor) and its own id.
\<close>

record Message =
  msg_text :: string
  from_user_id :: int
  message_id :: int

text \<open>
  \<^verbatim>\<open>aiogram.types.ChatMember\<close>; \<open>member_user\<close> is its \<^verbatim>\<open>user\<close>. The two capability flags are optional booleans
  (\<^verbatim>\<open>None\<close> where the platform sends none).
\<close>

datatype ChatMemberStatus = CREATOR | ADMINISTRATOR | MEMBER | RESTRICTED | LEFT | KICKED

record ChatMember =
  member_user :: tg_User
  can_delete_messages :: "bool option"
  can_restrict_members :: "bool option"
  status :: ChatMemberStatus

text \<open>The \<^verbatim>\<open>karma\<close> dictionary handed over by the karma filter.\<close>

record karma =
  k_user :: tg_User
  k_karma_change :: int

text \<open>\<^verbatim>\<open>app.models.UserKarma\<close>, as far as the reply reads it.\<close>

record UserKarma =
  karma_round :: real

text \<open>The stored karma of a (user id, chat id) pair.\<close>

type_synonym karma_store = "(int \<times> int) \<rightharpoonup> real"

subsection \<open>Exceptions\<close>

text \<open>
  \<open>UserWithoutUserIdError\<close> carries the attributes \<^verbatim>\<open>user_id\<close> and
  \<^verbatim>\<open>chat_id\<close> that \<^verbatim>\<open>karma_change\<close> sets before it re-raises;
  \<open>TimedeltaParseError\<close> carries its \<^verbatim>\<open>text\<close>. \<open>BadRequest\<close> stands for the
  class and its subclasses, \<open>OtherError\<close> for every exception no handler names.
\<close>

datatype exn =
    is_UserWithoutUserIdError: UserWithoutUserIdError "int option" "int option"
  | UsernameNotOccupied
  | IndexError
  | SubZeroKarma
  | is_TimedeltaParseError: TimedeltaParseError (error_text: string)
  | is_BadRequest: BadRequest string
  | ValueError
  | KeyError
  | FileNotFoundError
  | OtherError string

subsection \<open>Message texts\<close>

text \<open>
  The fixed Russian literals of the handlers, named by their meaning:
  \<^item> \<open>TooOftenChangeKarma\<close>: "Vy slishkom chasto menyaete karmu";
  \<^item> \<open>TooLittleKarma\<close>: "U Vas slishkom malo karmy dlya etogo";
  \<^item> \<open>Vy\<close>, \<open>karmu\<close>, \<open>do\<close>: the literal parts "Vy ", " karmu ", " do " of the
    karma reply; \<open>uvelichili\<close>, \<open>umenshili\<close>: the two values of \<^verbatim>\<open>how_change\<close>;
  \<^item> \<open>ThanksForReport\<close>: "Spasibo za soobshchenie. My obyazatelno razberyomsya. ";
  \<^item> \<open>CannotRecognizeTime\<close>: "Ne mogu raspoznat vremya. ";
  \<^item> \<open>Polzovatel\<close>: "Polzovatel ";
  \<^item> \<open>OnlyReadFor\<close>: " smozhet <b>tolko chitat</b> soobshcheniya na protyazhenii ";
  \<^item> \<open>BannedInChat\<close>: " popal v ban etogo chata.";
  \<^item> \<open>CanReturnAfter\<close>: " On smozhet vernutsya cherez ";
  \<^item> \<open>OfficialWarning\<close>: " poluchil ofitsialnoe preduprezhdenie ot moderatora".
\<close>

datatype phrase =
    TooOftenChangeKarma | TooLittleKarma
  | Vy | karmu | do | uvelichili | umenshili
  | ThanksForReport | CannotRecognizeTime
  | Polzovatel | OnlyReadFor | BannedInChat | CanReturnAfter | OfficialWarning

text \<open>
  A message text is the concatenation of its pieces: fixed literals and computed strings.
  String concatenation and \<^verbatim>\<open>str.format\<close> become list append.
\<close>

datatype piece = Lit phrase | Str string

type_synonym rich_text = "piece list"

subsection \<open>Traces\<close>

text \<open>What \<^verbatim>\<open>logger.info\<close> and \<^verbatim>\<open>logger.error\<close> are called with.\<close>

datatype log_msg =
    TrySelfKarma int
  | NegativeKarma int
  | ChangedKarma int int
  | ReportFor int int
  | Restricted int int timedelta
  | Kicked int int timedelta
  | FailedRestrict exn
  | FailedKick exn

text \<open>
  One call to a collaborator.
  \<^item> \<open>GetOrCreateFromTgUser u\<close>: \<^verbatim>\<open>User.get_or_create_from_tg_user(u)\<close>;
  \<^item> \<open>GetUserByUsername n\<close>: \<^verbatim>\<open>user_getter.get_user_by_username(n)\<close>;
  \<^item> \<open>ChangeOrCreate target chat actor how\<close>: \<^verbatim>\<open>UserKarma.change_or_create\<close>;
  \<^item> \<open>GetDbUser u\<close>: \<^verbatim>\<open>get_db_user_by_tg_user(u)\<close>;
  \<^item> \<open>GetAdministrators\<close>: \<^verbatim>\<open>chat.get_administrators()\<close>;
  \<^item> \<open>Restrict tg_id until\<close>: \<^verbatim>\<open>message.chat.restrict(tg_id, can_send_messages=False, until_date=until)\<close>;
  \<^item> \<open>Kick tg_id until\<close>: \<^verbatim>\<open>message.chat.kick(tg_id, until_date=until)\<close>;
  \<^item> \<open>SaveNewAction moderator user chat type_restriction duration comment\<close>:
    \<^verbatim>\<open>ModeratorEvent.save_new_action\<close>, the audit write;
  \<^item> \<open>Reply t\<close>: \<^verbatim>\<open>message.reply(t)\<close>;
  \<^item> \<open>LogInfo\<close>, \<open>LogError\<close>: the logger.
\<close>

datatype effect =
    GetOrCreateFromTgUser tg_User
  | GetUserByUsername "string option"
  | ChangeOrCreate User Chat User int
  | GetDbUser tg_User
  | GetAdministrators
  | Restrict int timedelta
  | Kick int timedelta
  | SaveNewAction User User Chat string "timedelta option" string
  | Reply rich_text
  | LogInfo log_msg
  | LogError log_msg

text \<open>
  How a handler ends: \<open>ReturnNone\<close> (falling off the end, or returning what the logger
  returns), \<open>ReturnFalse\<close>, \<open>ReturnSent\<close> (returning the message that
  \<^verbatim>\<open>message.reply\<close> sent) or \<open>Raise e\<close>.
\<close>

datatype result = ReturnNone | ReturnFalse | ReturnSent | Raise exn

type_synonym run = "effect list \<times> result"

fun is_reply :: "effect \<Rightarrow> bool" where
  "is_reply (Reply t) = True"
| "is_reply e = False"

fun is_audit :: "effect \<Rightarrow> bool" where
  "is_audit (SaveNewAction m u c k d t) = True"
| "is_audit e = False"

fun is_platform_call :: "effect \<Rightarrow> bool" where
  "is_platform_call (Restrict i d) = True"
| "is_platform_call (Kick i d) = True"
| "is_platform_call e = False"

subsection \<open>Collaborators\<close>

text \<open>
  The code the handlers import from outside \<^verbatim>\<open>app/handlers\<close> and
  \<^verbatim>\<open>app/utils/send_text_file.py\<close> is a parameter of the embedding: each field is what the
  call of that name answers, an exception (\<open>Inl\<close>) or a value (\<open>Inr\<close>).
  \<open>change_or_create\<close> reads and writes the karma store; when it raises, the store is the
  one it was given. \<open>format_power\<close> is the format \<^verbatim>\<open>{power:+.1f}\<close>, \<open>str_karma\<close> is
  \<^verbatim>\<open>str\<close> on the rounded karma, \<open>wrap\<close> is \<^verbatim>\<open>textwrap.wrap\<close>; \<open>quote_html\<close>,
  \<open>hbold\<close> and \<open>hide_link\<close> are the markup helpers of \<^verbatim>\<open>aiogram.utils.markdown\<close>.
  \<open>get_administrators\<close> is what \<^verbatim>\<open>chat.get_administrators()\<close> answers for the chat of
  the message. \<open>on_throttled_default\<close> is what the dispatcher does with an over-rate
  invocation of a handler whose \<^verbatim>\<open>dp.throttled\<close> decorator names no callback: the spec
  speaks of a lightweight reply, the source names none, so it is left open here.
  \<^verbatim>\<open>message.reply\<close> and the logger are taken to return.
\<close>

record env =
  get_or_create_from_tg_user :: "tg_User \<Rightarrow> exn + User"
  get_user_by_username :: "string option \<Rightarrow> exn + User"
  change_or_create :: "karma_store \<Rightarrow> User \<Rightarrow> Chat \<Rightarrow> User \<Rightarrow> int \<Rightarrow> exn + (karma_store \<times> UserKarma \<times> real)"
  get_db_user_by_tg_user :: "tg_User \<Rightarrow> exn + User"
  get_administrators :: "exn + ChatMember list"
  parse_timedelta_from_text :: "string \<Rightarrow> exn + timedelta"
  format_timedelta :: "timedelta \<Rightarrow> string"
  restrict :: "int \<Rightarrow> timedelta \<Rightarrow> exn + unit"
  kick :: "int \<Rightarrow> timedelta \<Rightarrow> exn + unit"
  save_new_action :: "User \<Rightarrow> User \<Rightarrow> Chat \<Rightarrow> string \<Rightarrow> timedelta option \<Rightarrow> string \<Rightarrow> exn + unit"
  quote_html :: "string \<Rightarrow> string"
  hbold :: "string \<Rightarrow> string"
  hide_link :: "string \<Rightarrow> string"
  format_power :: "real \<Rightarrow> string"
  str_karma :: "real \<Rightarrow> string"
  wrap :: "string \<Rightarrow> nat \<Rightarrow> string list"
  on_throttled_default :: "Message \<Rightarrow> run"

section \<open>Karma change (\<^verbatim>\<open>app/handlers/change_karma.py\<close>)\<close>

definition how_change :: "int \<rightharpoonup> phrase" where
  "how_change = [1 \<mapsto> uvelichili, - 1 \<mapsto> umenshili]"

definition can_change_karma :: "User \<Rightarrow> User \<Rightarrow> bool" where
  "can_change_karma target_user user = (user_id user \<noteq> user_id target_user)"

definition to_fast_change_karma :: "Message \<Rightarrow> run" where
  "to_fast_change_karma message = ([Reply [Lit TooOftenChangeKarma]], ReturnSent)"

text \<open>
  The second half of \<^verbatim>\<open>karma_change\<close>, from the call of the karma engine on
  (lines 44 to 70); \<open>tr\<close> is the trace so far.
\<close>

definition karma_change_apply ::
  "env \<Rightarrow> karma_store \<Rightarrow> effect list \<Rightarrow> karma \<Rightarrow> User \<Rightarrow> Chat \<Rightarrow> User \<Rightarrow> karma_store \<times> run" where
  "karma_change_apply E st tr karma user chat target_user =
     (let call = ChangeOrCreate target_user chat user (k_karma_change karma) in
      case change_or_create E st target_user chat user (k_karma_change karma) of
        Inl e \<Rightarrow>
          if e = SubZeroKarma
          then (st, tr @ [call, LogInfo (NegativeKarma (tg_id user)), Reply [Lit TooLittleKarma]],
                ReturnSent)
          else (st, tr @ [call], Raise e)
      | Inr (st', uk, power') \<Rightarrow>
          (case how_change (k_karma_change karma) of
             None \<Rightarrow> (st', tr @ [call], Raise KeyError)
           | Some how \<Rightarrow>
               (st', tr @ [call,
                  Reply [Lit Vy, Lit how, Lit karmu, Str (hbold E (fullname target_user)),
                         Lit do, Str (hbold E (str_karma E (karma_round uk))), Str '' ('',
                         Str (format_power E (power' * of_int (k_karma_change karma))), Str '')''],
                  LogInfo (ChangedKarma (tg_id user) (tg_id target_user))],
                ReturnNone)))"

text \<open>
  \<^verbatim>\<open>karma_change\<close>, without its decorators. The \<^verbatim>\<open>else\<close> branch of the first
  \<^verbatim>\<open>try\<close> runs only when \<^verbatim>\<open>get_or_create_from_tg_user\<close> returned.
\<close>

definition karma_change ::
  "env \<Rightarrow> karma_store \<Rightarrow> Message \<Rightarrow> karma \<Rightarrow> User \<Rightarrow> Chat \<Rightarrow> karma_store \<times> run" where
  "karma_change E st message karma user chat =
     (case get_or_create_from_tg_user E (k_user karma) of
        Inl e \<Rightarrow>
          if is_UserWithoutUserIdError e
          then (case get_user_by_username E (username (k_user karma)) of
                  Inl e' \<Rightarrow>
                    if e' = UsernameNotOccupied \<or> e' = IndexError
                    then (st, [GetOrCreateFromTgUser (k_user karma),
                               GetUserByUsername (username (k_user karma))],
                          Raise (UserWithoutUserIdError (Some (tg_id user)) (Some (chat_id chat))))
                    else (st, [GetOrCreateFromTgUser (k_user karma),
                               GetUserByUsername (username (k_user karma))],
                          Raise e')
                | Inr target_user \<Rightarrow>
                    karma_change_apply E st
                      [GetOrCreateFromTgUser (k_user karma),
                       GetUserByUsername (username (k_user karma))]
                      karma user chat target_user)
          else (st, [GetOrCreateFromTgUser (k_user karma)], Raise e)
      | Inr target_user \<Rightarrow>
          if \<not> can_change_karma target_user user
          then (st, [GetOrCreateFromTgUser (k_user karma), LogInfo (TrySelfKarma (tg_id user))],
                ReturnNone)
          else karma_change_apply E st [GetOrCreateFromTgUser (k_user karma)]
                 karma user chat target_user)"

section \<open>Moderation (\<^verbatim>\<open>app/handlers/moderator.py\<close>)\<close>

definition FOREVER_DURATION :: timedelta where
  "FOREVER_DURATION = timedelta_days 366"

definition DEFAULT_DURATION :: timedelta where
  "DEFAULT_DURATION = timedelta_hours 1"

subsection \<open>Python's \<^verbatim>\<open>str.split\<close> and \<^verbatim>\<open>str.join\<close>\<close>

text \<open>
  The whitespace of \<^verbatim>\<open>str.isspace\<close> among the ASCII characters: codes 9 to 13 and 28 to 32.
\<close>

definition isspace :: "char \<Rightarrow> bool" where
  "isspace c = ((9 \<le> (of_char c :: nat) \<and> (of_char c :: nat) \<le> 13)
              \<or> (28 \<le> (of_char c :: nat) \<and> (of_char c :: nat) \<le> 32))"

text \<open>
  \<^verbatim>\<open>s.split(maxsplit=k)\<close>: at most \<open>k\<close> words are cut off at runs of whitespace; what
  is left after them, without its leading whitespace, is the last item when it is not empty.
\<close>

fun py_split :: "nat \<Rightarrow> string \<Rightarrow> string list" where
  "py_split 0 s = (let r = dropWhile isspace s in if r = [] then [] else [r])"
| "py_split (Suc k) s =
     (let r = dropWhile isspace s in
      if r = [] then []
      else takeWhile (\<lambda>c. \<not> isspace c) r # py_split k (dropWhile (\<lambda>c. \<not> isspace c) r))"

fun py_join :: "string \<Rightarrow> string list \<Rightarrow> string" where
  "py_join sep [] = []"
| "py_join sep [x] = x"
| "py_join sep (x # y # ys) = x @ sep @ py_join sep (y # ys)"

subsection \<open>Report\<close>

text \<open>
  Python's \<^verbatim>\<open>a or b or c\<close> on two optional booleans and a comparison: the value is true
  exactly when one of the three is.
\<close>

definition need_notify_admin :: "ChatMember \<Rightarrow> bool" where
  "need_notify_admin admin =
     (can_delete_messages admin = Some True \<or> can_restrict_members admin = Some True
      \<or> status admin = CREATOR)"

text \<open>The loop of \<^verbatim>\<open>get_mentions_admins\<close>; the accumulator is \<^verbatim>\<open>admins_mention\<close>.\<close>

fun mentions_loop :: "env \<Rightarrow> ChatMember list \<Rightarrow> string \<Rightarrow> string" where
  "mentions_loop E [] admins_mention = admins_mention"
| "mentions_loop E (admin # admins) admins_mention =
     (if is_bot (member_user admin) then mentions_loop E admins admins_mention
      else if need_notify_admin admin
      then mentions_loop E admins (admins_mention @ hide_link E (url (member_user admin)))
      else mentions_loop E admins admins_mention)"

definition get_mentions_admins :: "env \<Rightarrow> exn + string" where
  "get_mentions_admins E =
     (case get_administrators E of
        Inl e \<Rightarrow> Inl e
      | Inr admins \<Rightarrow> Inr (mentions_loop E admins []))"

text \<open>\<^verbatim>\<open>report\<close>, without its decorators.\<close>

definition report :: "env \<Rightarrow> Message \<Rightarrow> run" where
  "report E message =
     (case get_mentions_admins E of
        Inl e \<Rightarrow>
          ([LogInfo (ReportFor (from_user_id message) (message_id message)), GetAdministrators],
           Raise e)
      | Inr admins_mention \<Rightarrow>
          ([LogInfo (ReportFor (from_user_id message) (message_id message)), GetAdministrators,
            Reply [Lit ThanksForReport, Str admins_mention, Str '' '']],
           ReturnNone))"

subsection \<open>Duration and comment of a command\<close>

text \<open>
  \<^verbatim>\<open>_, *args = text.split(maxsplit=2)\<close> raises \<^verbatim>\<open>ValueError\<close> when the split is empty.
\<close>

definition get_moderator_message_args :: "string \<Rightarrow> exn + (string \<times> string)" where
  "get_moderator_message_args t =
     (case py_split 2 t of
        [] \<Rightarrow> Inl ValueError
      | _ # args \<Rightarrow>
          (case args of
             [] \<Rightarrow> Inr ([], [])
           | duration_text # rest \<Rightarrow>
               if length args = 1 then Inr (duration_text, [])
               else Inr (duration_text, py_join '' '' rest)))"

definition get_duration :: "env \<Rightarrow> string \<Rightarrow> exn + (timedelta \<times> string)" where
  "get_duration E t =
     (case get_moderator_message_args t of
        Inl e \<Rightarrow> Inl e
      | Inr (duration_text, comment) \<Rightarrow>
          if duration_text \<noteq> []
          then (case parse_timedelta_from_text E duration_text of
                  Inl e \<Rightarrow> Inl e
                | Inr duration \<Rightarrow> Inr (duration, comment))
          else Inr (DEFAULT_DURATION, comment))"

subsection \<open>The commands\<close>

definition cmd_ro :: "env \<Rightarrow> Message \<Rightarrow> Chat \<Rightarrow> User \<Rightarrow> tg_User \<Rightarrow> run" where
  "cmd_ro E message chat user target =
     (case get_duration E (msg_text message) of
        Inl e \<Rightarrow>
          if is_TimedeltaParseError e
          then ([Reply [Lit CannotRecognizeTime, Str (quote_html E (error_text e))]], ReturnSent)
          else ([], Raise e)
      | Inr (duration, comment) \<Rightarrow>
          (case get_db_user_by_tg_user E target of
             Inl e \<Rightarrow> ([GetDbUser target], Raise e)
           | Inr target_user \<Rightarrow>
               (case restrict E (tg_id target_user) duration of
                  Inl e \<Rightarrow>
                    if is_BadRequest e
                    then ([GetDbUser target, Restrict (tg_id target_user) duration,
                           LogError (FailedRestrict e)], ReturnFalse)
                    else ([GetDbUser target, Restrict (tg_id target_user) duration], Raise e)
                | Inr _ \<Rightarrow>
                    (case save_new_action E user target_user chat ''ro'' (Some duration) comment of
                       Inl e \<Rightarrow>
                         ([GetDbUser target, Restrict (tg_id target_user) duration,
                           LogInfo (Restricted (tg_id target_user) (tg_id user) duration),
                           SaveNewAction user target_user chat ''ro'' (Some duration) comment],
                          Raise e)
                     | Inr _ \<Rightarrow>
                         ([GetDbUser target, Restrict (tg_id target_user) duration,
                           LogInfo (Restricted (tg_id target_user) (tg_id user) duration),
                           SaveNewAction user target_user chat ''ro'' (Some duration) comment,
                           Reply [Lit Polzovatel, Str (mention_link target_user), Lit OnlyReadFor,
                                  Str (format_timedelta E duration)]],
                          ReturnNone)))))"

text \<open>The text of the reply of \<^verbatim>\<open>cmd_ban\<close> (lines 149 to 153).\<close>

definition ban_text :: "env \<Rightarrow> User \<Rightarrow> timedelta \<Rightarrow> rich_text" where
  "ban_text E target_user duration =
     [Lit Polzovatel, Str (mention_link target_user), Lit BannedInChat]
     @ (if duration < FOREVER_DURATION
        then [Lit CanReturnAfter, Str (format_timedelta E duration)] else [])"

definition cmd_ban :: "env \<Rightarrow> Message \<Rightarrow> Chat \<Rightarrow> User \<Rightarrow> tg_User \<Rightarrow> run" where
  "cmd_ban E message chat user target =
     (case get_duration E (msg_text message) of
        Inl e \<Rightarrow>
          if is_TimedeltaParseError e
          then ([Reply [Lit CannotRecognizeTime, Str (quote_html E (error_text e))]], ReturnSent)
          else ([], Raise e)
      | Inr (duration, comment) \<Rightarrow>
          (case get_db_user_by_tg_user E target of
             Inl e \<Rightarrow> ([GetDbUser target], Raise e)
           | Inr target_user \<Rightarrow>
               (case kick E (tg_id target_user) duration of
                  Inl e \<Rightarrow>
                    if is_BadRequest e
                    then ([GetDbUser target, Kick (tg_id target_user) duration,
                           LogError (FailedKick e)], ReturnFalse)
                    else ([GetDbUser target, Kick (tg_id target_user) duration], Raise e)
                | Inr _ \<Rightarrow>
                    (case save_new_action E user target_user chat ''ban'' (Some duration) comment of
                       Inl e \<Rightarrow>
                         ([GetDbUser target, Kick (tg_id target_user) duration,
                           LogInfo (Kicked (tg_id target_user) (tg_id user) duration),
                           SaveNewAction user target_user chat ''ban'' (Some duration) comment],
                          Raise e)
                     | Inr _ \<Rightarrow>
                         ([GetDbUser target, Kick (tg_id target_user) duration,
                           LogInfo (Kicked (tg_id target_user) (tg_id user) duration),
                           SaveNewAction user target_user chat ''ban'' (Some duration) comment,
                           Reply (ban_text E target_user duration)],
                          ReturnNone)))))"

text \<open>
  The comment of \<^verbatim>\<open>cmd_warn\<close>: \<^verbatim>\<open>args[1]\<close> unless the split has one item;
  on an empty split the index is out of range.
\<close>

definition warn_comment :: "string list \<Rightarrow> exn + string" where
  "warn_comment args =
     (if length args = 1 then Inr []
      else (case args of _ # c # _ \<Rightarrow> Inr c | _ \<Rightarrow> Inl IndexError))"

definition cmd_warn :: "env \<Rightarrow> Message \<Rightarrow> Chat \<Rightarrow> tg_User \<Rightarrow> User \<Rightarrow> run" where
  "cmd_warn E message chat target user =
     (case warn_comment (py_split 1 (msg_text message)) of
        Inl e \<Rightarrow> ([], Raise e)
      | Inr comment \<Rightarrow>
          (case get_db_user_by_tg_user E target of
             Inl e \<Rightarrow> ([GetDbUser target], Raise e)
           | Inr target_user \<Rightarrow>
               (case save_new_action E user target_user chat ''warn'' None comment of
                  Inl e \<Rightarrow>
                    ([GetDbUser target, SaveNewAction user target_user chat ''warn'' None comment],
                     Raise e)
                | Inr _ \<Rightarrow>
                    ([GetDbUser target, SaveNewAction user target_user chat ''warn'' None comment,
                      Reply [Lit Polzovatel, Str (mention_link target_user), Lit OfficialWarning]],
                     ReturnNone))))"

section \<open>Throttling and dispatch\<close>

text \<open>
  Modelled from the spec: the throttle gate behind the decorator \<^verbatim>\<open>dp.throttled\<close> is the
  dispatcher's and is not under \<^verbatim>\<open>src/\<close>. Following the spec (Rate Limiter, and
  RateLimitState in the data model): the state records, per actor id and action class, the
  time of the last invocation; an invocation passes when there is no record or when at least
  the configured interval has gone by since the recorded time; every invocation updates the
  record. Times are in seconds.
\<close>

type_synonym RateLimitState = "(int \<times> string) \<rightharpoonup> real"

definition throttle :: "RateLimitState \<Rightarrow> string \<Rightarrow> real \<Rightarrow> int \<Rightarrow> real \<Rightarrow> bool \<times> RateLimitState" where
  "throttle rl key rate actor now =
     ((case rl (actor, key) of None \<Rightarrow> True | Some called \<Rightarrow> rate \<le> now - called),
      rl((actor, key) \<mapsto> now))"

text \<open>
  Modelled from the spec: the decorator \<^verbatim>\<open>dp.throttled(on_throttled, rate=rate)\<close> around
  a handler \<open>func\<close>, not under \<^verbatim>\<open>src/\<close>. An invocation that passes the gate runs the
  handler; an over-rate invocation does not, and triggers \<open>on_throttled\<close> in its place.
  The action class \<open>key\<close> is the name of the handler, the actor is the sender of the
  message.
\<close>

definition throttled ::
  "(Message \<Rightarrow> run) \<Rightarrow> string \<Rightarrow> real \<Rightarrow> (karma_store \<Rightarrow> Message \<Rightarrow> karma_store \<times> run)
   \<Rightarrow> RateLimitState \<times> karma_store \<Rightarrow> real \<Rightarrow> Message \<Rightarrow> (RateLimitState \<times> karma_store) \<times> run" where
  "throttled on_throttled key rate func w now message =
     (case throttle (fst w) key rate (from_user_id message) now of
        (ok, rl') \<Rightarrow>
          if ok then (case func (snd w) message of (st', r) \<Rightarrow> ((rl', st'), r))
          else ((rl', snd w), on_throttled message))"

text \<open>
  A message for which the router has chosen a handler, with the arguments the filters and
  middlewares hand over.
\<close>

datatype update =
    KarmaChangeMsg Message karma User Chat
  | ReportMsg Message
  | RoMsg Message Chat User tg_User
  | BanMsg Message Chat User tg_User
  | WarnMsg Message Chat tg_User User

text \<open>
  The handlers as they are registered, each with the decorators it has in the source:
  \<^verbatim>\<open>karma_change\<close> under \<^verbatim>\<open>@dp.throttled(to_fast_change_karma, rate=30)\<close>,
  \<^verbatim>\<open>report\<close> under \<^verbatim>\<open>@dp.throttled(rate=5)\<close>, which names no callback, so that an
  over-rate report triggers \<open>on_throttled_default\<close>, and \<^verbatim>\<open>cmd_ro\<close>,
  \<^verbatim>\<open>cmd_ban\<close>, \<^verbatim>\<open>cmd_warn\<close> under none. The world is the throttle state and the
  karma store; \<open>now\<close> is the time of the invocation.
\<close>

definition dispatch ::
  "env \<Rightarrow> RateLimitState \<times> karma_store \<Rightarrow> real \<Rightarrow> update \<Rightarrow> (RateLimitState \<times> karma_store) \<times> run" where
  "dispatch E w now u =
     (case u of
        KarmaChangeMsg message karma user chat \<Rightarrow>
          throttled to_fast_change_karma ''karma_change'' 30
            (\<lambda>st m. karma_change E st m karma user chat) w now message
      | ReportMsg message \<Rightarrow>
          throttled (on_throttled_default E) ''report'' 5 (\<lambda>st m. (st, report E m))
            w now message
      | RoMsg message chat user target \<Rightarrow> (w, cmd_ro E message chat user target)
      | BanMsg message chat user target \<Rightarrow> (w, cmd_ban E message chat user target)
      | WarnMsg message chat target user \<Rightarrow> (w, cmd_warn E message chat target user))"

section \<open>Shipping a log file (\<^verbatim>\<open>app/utils/send_text_file.py\<close>)\<close>

definition MAX_MESSAGE_SYMBOLS :: nat where
  "MAX_MESSAGE_SYMBOLS = 4000"

text \<open>The file system: the content of each file that exists.\<close>

type_synonym files = "string \<rightharpoonup> string"

text \<open>
  Iterating over a text file: the lines, each with its newline; \<open>cur\<close> is the line
  being read.
\<close>

fun readlines :: "string \<Rightarrow> string \<Rightarrow> string list" where
  "readlines cur [] = (if cur = [] then [] else [cur])"
| "readlines cur (c # cs) =
     (if c = CHR 0x0A then (cur @ [c]) # readlines [] cs else readlines (cur @ [c]) cs)"

text \<open>The loop of \<^verbatim>\<open>split_text_file\<close> over the lines, on \<^verbatim>\<open>buffer_lines\<close> and \<^verbatim>\<open>rez\<close>.\<close>

fun split_loop :: "env \<Rightarrow> string list \<Rightarrow> string \<Rightarrow> string list \<Rightarrow> string \<times> string list" where
  "split_loop E [] buffer_lines rez = (buffer_lines, rez)"
| "split_loop E (l # ls) buffer_lines rez =
     (let line = quote_html E l in
      if length line > MAX_MESSAGE_SYMBOLS
      then split_loop E ls [] (rez @ [buffer_lines] @ wrap E line MAX_MESSAGE_SYMBOLS)
      else if length buffer_lines + length line > MAX_MESSAGE_SYMBOLS
      then split_loop E ls [] (rez @ [buffer_lines])
      else split_loop E ls (buffer_lines @ line) rez)"

text \<open>
  \<^verbatim>\<open>split_text_file\<close>: \<^verbatim>\<open>open(file_name, 'r+')\<close> raises when the file does not exist;
  \<^verbatim>\<open>in_file.truncate(0)\<close> leaves the file with the empty content.
\<close>

definition split_text_file :: "env \<Rightarrow> files \<Rightarrow> string \<Rightarrow> exn + (string list \<times> files)" where
  "split_text_file E fs file_name =
     (case fs file_name of
        None \<Rightarrow> Inl FileNotFoundError
      | Some content \<Rightarrow>
          (case split_loop E (readlines [] content) (hbold E file_name @ [CHR '':'', CHR 0x0A]) [] of
             (buffer_lines, rez) \<Rightarrow>
               Inr (if length buffer_lines > 0 then rez @ [buffer_lines] else rez,
                    fs(file_name \<mapsto> []))))"

section \<open>Sample collaborators\<close>

text \<open>
  Two users, a chat and one set of collaborators, for running the handlers on concrete
  messages. The sample karma engine keeps a karma that never goes below zero; the sample
  parser knows the tokens \<^verbatim>\<open>30m\<close> and \<^verbatim>\<open>forever\<close>; the platform refuses to restrict or
  kick the user with the platform id 1001; the sample dispatcher answers an over-rate
  invocation that has no callback with a short reply.
\<close>

definition alice :: User where
  "alice = \<lparr>user_id = 1, tg_id = 1001, fullname = ''Alice'', mention_link = ''@alice''\<rparr>"

definition bob :: User where
  "bob = \<lparr>user_id = 2, tg_id = 1002, fullname = ''Bob'', mention_link = ''@bob''\<rparr>"

definition a_chat :: Chat where
  "a_chat = \<lparr>chat_id = - 100\<rparr>"

definition tg_alice :: tg_User where
  "tg_alice = \<lparr>tg_user_id = Some 1001, username = Some ''alice'', is_bot = False,
               url = ''tg://user?id=1001''\<rparr>"

definition tg_bob :: tg_User where
  "tg_bob = \<lparr>tg_user_id = Some 1002, username = Some ''bob'', is_bot = False,
             url = ''tg://user?id=1002''\<rparr>"

definition tg_helper_bot :: tg_User where
  "tg_helper_bot = \<lparr>tg_user_id = Some 1003, username = Some ''helper_bot'', is_bot = True,
             url = ''tg://user?id=1003''\<rparr>"

definition mention_alice :: tg_User where
  "mention_alice = \<lparr>tg_user_id = None, username = Some ''alice'', is_bot = False,
               url = ''tg://user?id=None''\<rparr>"

definition sample_admins :: "ChatMember list" where
  "sample_admins =
     [\<lparr>member_user = tg_alice, can_delete_messages = None, can_restrict_members = None,
       status = CREATOR\<rparr>,
      \<lparr>member_user = tg_helper_bot, can_delete_messages = Some True,
       can_restrict_members = Some True, status = ADMINISTRATOR\<rparr>,
      \<lparr>member_user = tg_bob, can_delete_messages = Some False,
       can_restrict_members = Some False, status = ADMINISTRATOR\<rparr>]"

definition sample_quote_html :: "string \<Rightarrow> string" where
  "sample_quote_html s =
     concat (map (\<lambda>c. if c = CHR ''&'' then ''&amp;'' else if c = CHR ''<'' then ''&lt;''
                       else if c = CHR ''>'' then ''&gt;'' else [c]) s)"

definition sample_change_or_create ::
  "karma_store \<Rightarrow> User \<Rightarrow> Chat \<Rightarrow> User \<Rightarrow> int \<Rightarrow> exn + (karma_store \<times> UserKarma \<times> real)" where
  "sample_change_or_create st target_user chat user_changed how =
     (let cur = (case st (user_id target_user, chat_id chat) of None \<Rightarrow> 0 | Some k \<Rightarrow> k) in
      if cur + of_int how < 0 then Inl SubZeroKarma
      else Inr (st((user_id target_user, chat_id chat) \<mapsto> cur + of_int how),
                \<lparr>karma_round = cur + of_int how\<rparr>, 1))"

definition sample_env :: env where
  "sample_env = \<lparr>
     get_or_create_from_tg_user =
       (\<lambda>u. if tg_user_id u = Some 1001 then Inr alice
            else if tg_user_id u = Some 1002 then Inr bob
            else if tg_user_id u = None then Inl (UserWithoutUserIdError None None)
            else Inl (OtherError ''database'')),
     get_user_by_username =
       (\<lambda>n. if n = Some ''alice'' then Inr alice else if n = Some ''bob'' then Inr bob
            else Inl UsernameNotOccupied),
     change_or_create = sample_change_or_create,
     get_db_user_by_tg_user =
       (\<lambda>u. if tg_user_id u = Some 1001 then Inr alice
            else if tg_user_id u = Some 1002 then Inr bob
            else Inl (OtherError ''database'')),
     get_administrators = Inr sample_admins,
     parse_timedelta_from_text =
       (\<lambda>s. if s = ''30m'' then Inr (timedelta_minutes 30)
            else if s = ''forever'' then Inr (timedelta_days 366)
            else Inl (TimedeltaParseError s)),
     format_timedelta = (\<lambda>d. if d = timedelta_minutes 30 then ''30 minutes'' else ''a while''),
     restrict = (\<lambda>i d. if i = 1001 then Inl (BadRequest ''owner'') else Inr ()),
     kick = (\<lambda>i d. if i = 1001 then Inl (BadRequest ''owner'') else Inr ()),
     save_new_action = (\<lambda>m u c k d t. Inr ()),
     quote_html = sample_quote_html,
     hbold = (\<lambda>s. ''<b>'' @ sample_quote_html s @ ''</b>''),
     hide_link = (\<lambda>u. ''<a href='' @ u @ ''>&#8288;</a>''),
     format_power = (\<lambda>p. if 0 \<le> p then ''+1.0'' else ''-1.0''),
     str_karma = (\<lambda>k. ''1.0''),
     wrap = (\<lambda>s n. [s]),
     on_throttled_default = (\<lambda>m. ([Reply [Str ''Too many requests'']], ReturnSent))\<rparr>"

definition msg :: "string \<Rightarrow> int \<Rightarrow> Message" where
  "msg t sender = \<lparr>msg_text = t, from_user_id = sender, message_id = 7\<rparr>"

section \<open>Self-targeted karma changes\<close>

lemma can_change_karma_iff:
  "can_change_karma target_user user = False \<longleftrightarrow> user_id target_user = user_id user"
  by (auto simp: can_change_karma_def)

lemma karma_change_self_ignored:
  assumes "get_or_create_from_tg_user E (k_user karma) = Inr target_user"
    and "user_id target_user = user_id user"
  shows "karma_change E st message karma user chat =
           (st, [GetOrCreateFromTgUser (k_user karma), LogInfo (TrySelfKarma (tg_id user))],
            ReturnNone)"
  using assms by (simp add: karma_change_def can_change_karma_def)

lemma karma_change_by_username:
  assumes "get_or_create_from_tg_user E (k_user karma) = Inl (UserWithoutUserIdError a b)"
    and "get_user_by_username E (username (k_user karma)) = Inr target_user"
  shows "karma_change E st message karma user chat =
           karma_change_apply E st
             [GetOrCreateFromTgUser (k_user karma), GetUserByUsername (username (k_user karma))]
             karma user chat target_user"
  using assms by (simp add: karma_change_def)

text \<open>
  Claim C1: a karma change whose resolved target has the id of the acting user is ignored
  without a reply, on every path that resolves the target. On the first path this is
  \<open>karma_change_self_ignored\<close>. On the path through the username lookup the check
  of \<open>can_change_karma\<close> is not made (\<open>karma_change_by_username\<close>): for the actor Alice
  and a target given by the mention of her own username, the engine is called, her stored
  karma changes and the reply is sent.
\<close>

theorem karma_change_self_by_username:
  "\<not> can_change_karma alice alice
   \<and> snd (karma_change sample_env Map.empty (msg ''+'' 1001)
            \<lparr>k_user = mention_alice, k_karma_change = 1\<rparr> alice a_chat) =
       ([GetOrCreateFromTgUser mention_alice, GetUserByUsername (Some ''alice''),
         ChangeOrCreate alice a_chat alice 1,
         Reply [Lit Vy, Lit uvelichili, Lit karmu, Str ''<b>Alice</b>'', Lit do,
                Str ''<b>1.0</b>'', Str '' ('', Str ''+1.0'', Str '')''],
         LogInfo (ChangedKarma 1001 1001)],
        ReturnNone)
   \<and> fst (karma_change sample_env Map.empty (msg ''+'' 1001)
            \<lparr>k_user = mention_alice, k_karma_change = 1\<rparr> alice a_chat) (1, - 100) = Some 1"
  by (simp add: karma_change_def karma_change_apply_def can_change_karma_def sample_env_def
      sample_change_or_create_def how_change_def mention_alice_def alice_def a_chat_def
      sample_quote_html_def)

section \<open>The karma engine refuses\<close>

text \<open>
  Claim C3: in an invocation of \<open>karma_change\<close> in which the karma engine is called and
  raises \<open>SubZeroKarma\<close>, the karma store is left as it was, the only reply is
  "too little karma for this", no audit record is written, and the handler returns the
  sent reply.
\<close>

theorem karma_change_sub_zero:
  assumes "ChangeOrCreate t c u h \<in> set (fst (snd (karma_change E st message karma user chat)))"
    and "change_or_create E st t c u h = Inl SubZeroKarma"
  shows "fst (karma_change E st message karma user chat) = st
       \<and> filter is_reply (fst (snd (karma_change E st message karma user chat))) =
           [Reply [Lit TooLittleKarma]]
       \<and> filter is_audit (fst (snd (karma_change E st message karma user chat))) = []
       \<and> snd (snd (karma_change E st message karma user chat)) = ReturnSent"
  using assms
  by (auto simp: karma_change_def karma_change_apply_def Let_def
      split: sum.splits if_splits prod.splits option.splits)

theorem karma_change_sub_zero_witness:
  "ChangeOrCreate alice a_chat bob (- 1) \<in>
     set (fst (snd (karma_change sample_env Map.empty (msg ''-'' 1002)
                      \<lparr>k_user = tg_alice, k_karma_change = - 1\<rparr> bob a_chat)))
   \<and> change_or_create sample_env Map.empty alice a_chat bob (- 1) = Inl SubZeroKarma
   \<and> karma_change sample_env Map.empty (msg ''-'' 1002)
        \<lparr>k_user = tg_alice, k_karma_change = - 1\<rparr> bob a_chat =
       (Map.empty, [GetOrCreateFromTgUser tg_alice, ChangeOrCreate alice a_chat bob (- 1),
          LogInfo (NegativeKarma 1002), Reply [Lit TooLittleKarma]], ReturnSent)"
proof -
  have run: "karma_change sample_env Map.empty (msg ''-'' 1002)
        \<lparr>k_user = tg_alice, k_karma_change = - 1\<rparr> bob a_chat =
       (Map.empty, [GetOrCreateFromTgUser tg_alice, ChangeOrCreate alice a_chat bob (- 1),
          LogInfo (NegativeKarma 1002), Reply [Lit TooLittleKarma]], ReturnSent)"
    by (simp add: karma_change_def karma_change_apply_def can_change_karma_def sample_env_def
        sample_change_or_create_def tg_alice_def alice_def bob_def a_chat_def)
  have called: "ChangeOrCreate alice a_chat bob (- 1) \<in>
     set (fst (snd (karma_change sample_env Map.empty (msg ''-'' 1002)
                      \<lparr>k_user = tg_alice, k_karma_change = - 1\<rparr> bob a_chat)))"
    by (simp add: run)
  have raised: "change_or_create sample_env Map.empty alice a_chat bob (- 1) = Inl SubZeroKarma"
    by (simp add: sample_env_def sample_change_or_create_def)
  from karma_change_sub_zero [OF called raised] called raised run show ?thesis by simp
qed

section \<open>Platform call and audit write\<close>

lemma cmd_ro_platform_failure:
  assumes "get_duration E (msg_text m) = Inr (d, c)"
    and "get_db_user_by_tg_user E t = Inr tu"
    and "restrict E (tg_id tu) d = Inl e"
  shows "cmd_ro E m ch u t =
           (if is_BadRequest e
            then ([GetDbUser t, Restrict (tg_id tu) d, LogError (FailedRestrict e)], ReturnFalse)
            else ([GetDbUser t, Restrict (tg_id tu) d], Raise e))"
  using assms by (simp add: cmd_ro_def)

lemma cmd_ban_platform_failure:
  assumes "get_duration E (msg_text m) = Inr (d, c)"
    and "get_db_user_by_tg_user E t = Inr tu"
    and "kick E (tg_id tu) d = Inl e"
  shows "cmd_ban E m ch u t =
           (if is_BadRequest e
            then ([GetDbUser t, Kick (tg_id tu) d, LogError (FailedKick e)], ReturnFalse)
            else ([GetDbUser t, Kick (tg_id tu) d], Raise e))"
  using assms by (simp add: cmd_ban_def)

lemma cmd_ro_audit_after_restrict:
  assumes "filter is_audit (fst (cmd_ro E m ch u t)) \<noteq> []"
  shows "\<exists>d c tu. get_duration E (msg_text m) = Inr (d, c)
           \<and> get_db_user_by_tg_user E t = Inr tu
           \<and> restrict E (tg_id tu) d = Inr ()
           \<and> take 4 (fst (cmd_ro E m ch u t)) =
               [GetDbUser t, Restrict (tg_id tu) d,
                LogInfo (Restricted (tg_id tu) (tg_id u) d),
                SaveNewAction u tu ch ''ro'' (Some d) c]"
  using assms
  by (auto simp: cmd_ro_def split: sum.splits if_splits prod.splits)

lemma cmd_ban_audit_after_kick:
  assumes "filter is_audit (fst (cmd_ban E m ch u t)) \<noteq> []"
  shows "\<exists>d c tu. get_duration E (msg_text m) = Inr (d, c)
           \<and> get_db_user_by_tg_user E t = Inr tu
           \<and> kick E (tg_id tu) d = Inr ()
           \<and> take 4 (fst (cmd_ban E m ch u t)) =
               [GetDbUser t, Kick (tg_id tu) d,
                LogInfo (Kicked (tg_id tu) (tg_id u) d),
                SaveNewAction u tu ch ''ban'' (Some d) c]"
  using assms
  by (auto simp: cmd_ban_def split: sum.splits if_splits prod.splits)

text \<open>
  Claim C2: when the platform call of a mute or a ban fails (\<open>restrict\<close> or \<open>kick\<close>
  raises), the trace of the handler holds no audit write and no reply, and the handler
  ends there: it returns \<^verbatim>\<open>False\<close> on a \<open>BadRequest\<close> and propagates any other
  exception. Conversely, a trace that holds an audit write begins with the resolution of
  the target, the platform call, which returned, the log line and then the audit write.
\<close>

theorem moderation_platform_failure_no_audit:
  "(get_duration E (msg_text m) = Inr (d, c) \<and> get_db_user_by_tg_user E t = Inr tu
      \<and> restrict E (tg_id tu) d = Inl e
    \<longrightarrow> filter is_audit (fst (cmd_ro E m ch u t)) = []
        \<and> filter is_reply (fst (cmd_ro E m ch u t)) = []
        \<and> snd (cmd_ro E m ch u t) = (if is_BadRequest e then ReturnFalse else Raise e))
   \<and> (get_duration E (msg_text m) = Inr (d, c) \<and> get_db_user_by_tg_user E t = Inr tu
      \<and> kick E (tg_id tu) d = Inl e
    \<longrightarrow> filter is_audit (fst (cmd_ban E m ch u t)) = []
        \<and> filter is_reply (fst (cmd_ban E m ch u t)) = []
        \<and> snd (cmd_ban E m ch u t) = (if is_BadRequest e then ReturnFalse else Raise e))
   \<and> (filter is_audit (fst (cmd_ro E m ch u t)) \<noteq> []
    \<longrightarrow> (\<exists>d c tu. get_duration E (msg_text m) = Inr (d, c)
           \<and> get_db_user_by_tg_user E t = Inr tu
           \<and> restrict E (tg_id tu) d = Inr ()
           \<and> take 4 (fst (cmd_ro E m ch u t)) =
               [GetDbUser t, Restrict (tg_id tu) d,
                LogInfo (Restricted (tg_id tu) (tg_id u) d),
                SaveNewAction u tu ch ''ro'' (Some d) c]))
   \<and> (filter is_audit (fst (cmd_ban E m ch u t)) \<noteq> []
    \<longrightarrow> (\<exists>d c tu. get_duration E (msg_text m) = Inr (d, c)
           \<and> get_db_user_by_tg_user E t = Inr tu
           \<and> kick E (tg_id tu) d = Inr ()
           \<and> take 4 (fst (cmd_ban E m ch u t)) =
               [GetDbUser t, Kick (tg_id tu) d,
                LogInfo (Kicked (tg_id tu) (tg_id u) d),
                SaveNewAction u tu ch ''ban'' (Some d) c]))"
proof (intro conjI impI)
  assume h: "get_duration E (msg_text m) = Inr (d, c) \<and> get_db_user_by_tg_user E t = Inr tu
      \<and> restrict E (tg_id tu) d = Inl e"
  then have run: "cmd_ro E m ch u t =
           (if is_BadRequest e
            then ([GetDbUser t, Restrict (tg_id tu) d, LogError (FailedRestrict e)], ReturnFalse)
            else ([GetDbUser t, Restrict (tg_id tu) d], Raise e))"
    using cmd_ro_platform_failure by blast
  show "filter is_audit (fst (cmd_ro E m ch u t)) = []" by (simp add: run)
  show "filter is_reply (fst (cmd_ro E m ch u t)) = []" by (simp add: run)
  show "snd (cmd_ro E m ch u t) = (if is_BadRequest e then ReturnFalse else Raise e)"
    by (simp add: run)
next
  assume h: "get_duration E (msg_text m) = Inr (d, c) \<and> get_db_user_by_tg_user E t = Inr tu
      \<and> kick E (tg_id tu) d = Inl e"
  then have run: "cmd_ban E m ch u t =
           (if is_BadRequest e
            then ([GetDbUser t, Kick (tg_id tu) d, LogError (FailedKick e)], ReturnFalse)
            else ([GetDbUser t, Kick (tg_id tu) d], Raise e))"
    using cmd_ban_platform_failure by blast
  show "filter is_audit (fst (cmd_ban E m ch u t)) = []" by (simp add: run)
  show "filter is_reply (fst (cmd_ban E m ch u t)) = []" by (simp add: run)
  show "snd (cmd_ban E m ch u t) = (if is_BadRequest e then ReturnFalse else Raise e)"
    by (simp add: run)
next
  assume "filter is_audit (fst (cmd_ro E m ch u t)) \<noteq> []"
  then show "\<exists>d c tu. get_duration E (msg_text m) = Inr (d, c)
           \<and> get_db_user_by_tg_user E t = Inr tu
           \<and> restrict E (tg_id tu) d = Inr ()
           \<and> take 4 (fst (cmd_ro E m ch u t)) =
               [GetDbUser t, Restrict (tg_id tu) d,
                LogInfo (Restricted (tg_id tu) (tg_id u) d),
                SaveNewAction u tu ch ''ro'' (Some d) c]"
    by (rule cmd_ro_audit_after_restrict)
next
  assume "filter is_audit (fst (cmd_ban E m ch u t)) \<noteq> []"
  then show "\<exists>d c tu. get_duration E (msg_text m) = Inr (d, c)
           \<and> get_db_user_by_tg_user E t = Inr tu
           \<and> kick E (tg_id tu) d = Inr ()
           \<and> take 4 (fst (cmd_ban E m ch u t)) =
               [GetDbUser t, Kick (tg_id tu) d,
                LogInfo (Kicked (tg_id tu) (tg_id u) d),
                SaveNewAction u tu ch ''ban'' (Some d) c]"
    by (rule cmd_ban_audit_after_kick)
qed

subsection \<open>The sample at work\<close>

lemma args_ro_30m: "get_moderator_message_args ''!ro 30m spam'' = Inr (''30m'', ''spam'')"
  by (simp add: get_moderator_message_args_def numeral_2_eq_2 isspace_def)

lemma args_ban_forever: "get_moderator_message_args ''!ban forever'' = Inr (''forever'', [])"
  by (simp add: get_moderator_message_args_def numeral_2_eq_2 isspace_def)

lemma args_ban_bad: "get_moderator_message_args ''!ban 3x<m spam'' = Inr (''3x<m'', ''spam'')"
  by (simp add: get_moderator_message_args_def numeral_2_eq_2 isspace_def)


lemma sample_env_fields:
  "get_or_create_from_tg_user sample_env u =
     (if tg_user_id u = Some 1001 then Inr alice
      else if tg_user_id u = Some 1002 then Inr bob
      else if tg_user_id u = None then Inl (UserWithoutUserIdError None None)
      else Inl (OtherError ''database''))"
  "get_user_by_username sample_env n =
     (if n = Some ''alice'' then Inr alice else if n = Some ''bob'' then Inr bob
      else Inl UsernameNotOccupied)"
  "change_or_create sample_env = sample_change_or_create"
  "get_db_user_by_tg_user sample_env u =
     (if tg_user_id u = Some 1001 then Inr alice
      else if tg_user_id u = Some 1002 then Inr bob
      else Inl (OtherError ''database''))"
  "get_administrators sample_env = Inr sample_admins"
  "parse_timedelta_from_text sample_env s =
     (if s = ''30m'' then Inr (timedelta_minutes 30)
      else if s = ''forever'' then Inr (timedelta_days 366)
      else Inl (TimedeltaParseError s))"
  "format_timedelta sample_env d =
     (if d = timedelta_minutes 30 then ''30 minutes'' else ''a while'')"
  "restrict sample_env i d = (if i = 1001 then Inl (BadRequest ''owner'') else Inr ())"
  "kick sample_env i d = (if i = 1001 then Inl (BadRequest ''owner'') else Inr ())"
  "save_new_action sample_env mo us c k du t = Inr ()"
  "quote_html sample_env = sample_quote_html"
  "hbold sample_env x = ''<b>'' @ sample_quote_html x @ ''</b>''"
  "hide_link sample_env x = ''<a href='' @ x @ ''>&#8288;</a>''"
  "format_power sample_env p = (if 0 \<le> p then ''+1.0'' else ''-1.0'')"
  "str_karma sample_env r = ''1.0''"
  "wrap sample_env x w = [x]"
  "on_throttled_default sample_env me = ([Reply [Str ''Too many requests'']], ReturnSent)"
  by (simp_all add: sample_env_def)

lemma sample_users:
  "tg_id alice = 1001" "tg_id bob = 1002" "user_id alice = 1" "user_id bob = 2"
  "mention_link alice = ''@alice''" "mention_link bob = ''@bob''"
  "fullname alice = ''Alice''" "fullname bob = ''Bob''"
  "tg_user_id tg_alice = Some 1001" "tg_user_id tg_bob = Some 1002"
  "tg_user_id mention_alice = None" "username mention_alice = Some ''alice''"
  "chat_id a_chat = - 100" "msg_text (msg x i) = x" "from_user_id (msg x i) = i"
  "message_id (msg x i) = 7"
  by (simp_all add: alice_def bob_def tg_alice_def tg_bob_def mention_alice_def a_chat_def msg_def)

lemma get_duration_30m:
  "get_duration sample_env ''!ro 30m spam'' = Inr (timedelta_minutes 30, ''spam'')"
  by (simp add: get_duration_def args_ro_30m sample_env_fields)

theorem moderation_platform_failure_no_audit_witness:
  "get_duration sample_env (msg_text (msg ''!ro 30m spam'' 1002)) = Inr (timedelta_minutes 30, ''spam'')
   \<and> get_db_user_by_tg_user sample_env tg_alice = Inr alice
   \<and> restrict sample_env (tg_id alice) (timedelta_minutes 30) = Inl (BadRequest ''owner'')
   \<and> kick sample_env (tg_id alice) (timedelta_minutes 30) = Inl (BadRequest ''owner'')
   \<and> filter is_audit (fst (cmd_ro sample_env (msg ''!ro 30m spam'' 1002) a_chat bob tg_alice)) = []
   \<and> filter is_reply (fst (cmd_ro sample_env (msg ''!ro 30m spam'' 1002) a_chat bob tg_alice)) = []
   \<and> snd (cmd_ro sample_env (msg ''!ro 30m spam'' 1002) a_chat bob tg_alice) = ReturnFalse
   \<and> filter is_audit (fst (cmd_ban sample_env (msg ''!ro 30m spam'' 1002) a_chat bob tg_alice)) = []
   \<and> filter is_reply (fst (cmd_ban sample_env (msg ''!ro 30m spam'' 1002) a_chat bob tg_alice)) = []
   \<and> snd (cmd_ban sample_env (msg ''!ro 30m spam'' 1002) a_chat bob tg_alice) = ReturnFalse
   \<and> filter is_audit (fst (cmd_ro sample_env (msg ''!ro 30m spam'' 1001) a_chat alice tg_bob)) \<noteq> []
   \<and> filter is_audit (fst (cmd_ban sample_env (msg ''!ro 30m spam'' 1001) a_chat alice tg_bob)) \<noteq> []
   \<and> (\<exists>d c tu. restrict sample_env (tg_id tu) d = Inr ()
         \<and> take 4 (fst (cmd_ro sample_env (msg ''!ro 30m spam'' 1001) a_chat alice tg_bob)) =
               [GetDbUser tg_bob, Restrict (tg_id tu) d,
                LogInfo (Restricted (tg_id tu) (tg_id alice) d),
                SaveNewAction alice tu a_chat ''ro'' (Some d) c])
   \<and> (\<exists>d c tu. kick sample_env (tg_id tu) d = Inr ()
         \<and> take 4 (fst (cmd_ban sample_env (msg ''!ro 30m spam'' 1001) a_chat alice tg_bob)) =
               [GetDbUser tg_bob, Kick (tg_id tu) d,
                LogInfo (Kicked (tg_id tu) (tg_id alice) d),
                SaveNewAction alice tu a_chat ''ban'' (Some d) c])"
proof -
  have dur: "get_duration sample_env (msg_text (msg ''!ro 30m spam'' 1002)) =
               Inr (timedelta_minutes 30, ''spam'')"
    by (simp add: sample_users get_duration_30m)
  have db: "get_db_user_by_tg_user sample_env tg_alice = Inr alice"
    by (simp add: sample_env_fields sample_users)
  have r: "restrict sample_env (tg_id alice) (timedelta_minutes 30) = Inl (BadRequest ''owner'')"
    by (simp add: sample_env_fields sample_users)
  have k: "kick sample_env (tg_id alice) (timedelta_minutes 30) = Inl (BadRequest ''owner'')"
    by (simp add: sample_env_fields sample_users)
  have ro_ok: "cmd_ro sample_env (msg ''!ro 30m spam'' 1001) a_chat alice tg_bob =
      ([GetDbUser tg_bob, Restrict 1002 (timedelta_minutes 30),
        LogInfo (Restricted 1002 1001 (timedelta_minutes 30)),
        SaveNewAction alice bob a_chat ''ro'' (Some (timedelta_minutes 30)) ''spam'',
        Reply [Lit Polzovatel, Str ''@bob'', Lit OnlyReadFor, Str ''30 minutes'']], ReturnNone)"
    by (simp add: cmd_ro_def get_duration_30m sample_env_fields sample_users)
  have ban_ok: "cmd_ban sample_env (msg ''!ro 30m spam'' 1001) a_chat alice tg_bob =
      ([GetDbUser tg_bob, Kick 1002 (timedelta_minutes 30),
        LogInfo (Kicked 1002 1001 (timedelta_minutes 30)),
        SaveNewAction alice bob a_chat ''ban'' (Some (timedelta_minutes 30)) ''spam'',
        Reply (ban_text sample_env bob (timedelta_minutes 30))], ReturnNone)"
    by (simp add: cmd_ban_def get_duration_30m sample_env_fields sample_users)
  have a1: "filter is_audit (fst (cmd_ro sample_env (msg ''!ro 30m spam'' 1001) a_chat alice tg_bob)) \<noteq> []"
    by (simp add: ro_ok)
  have a2: "filter is_audit (fst (cmd_ban sample_env (msg ''!ro 30m spam'' 1001) a_chat alice tg_bob)) \<noteq> []"
    by (simp add: ban_ok)
  note fail = moderation_platform_failure_no_audit
      [of sample_env "msg ''!ro 30m spam'' 1002" "timedelta_minutes 30" "''spam''" tg_alice alice
          "BadRequest ''owner''" a_chat bob]
  note ok = moderation_platform_failure_no_audit
      [of sample_env "msg ''!ro 30m spam'' 1001" "timedelta_minutes 30" "''spam''" tg_bob bob
          "BadRequest ''owner''" a_chat alice]
  from fail dur db r k
  have f: "filter is_audit (fst (cmd_ro sample_env (msg ''!ro 30m spam'' 1002) a_chat bob tg_alice)) = []
   \<and> filter is_reply (fst (cmd_ro sample_env (msg ''!ro 30m spam'' 1002) a_chat bob tg_alice)) = []
   \<and> snd (cmd_ro sample_env (msg ''!ro 30m spam'' 1002) a_chat bob tg_alice) = ReturnFalse
   \<and> filter is_audit (fst (cmd_ban sample_env (msg ''!ro 30m spam'' 1002) a_chat bob tg_alice)) = []
   \<and> filter is_reply (fst (cmd_ban sample_env (msg ''!ro 30m spam'' 1002) a_chat bob tg_alice)) = []
   \<and> snd (cmd_ban sample_env (msg ''!ro 30m spam'' 1002) a_chat bob tg_alice) = ReturnFalse"
    by simp
  from ok a1 a2
  have g: "(\<exists>d c tu. restrict sample_env (tg_id tu) d = Inr ()
         \<and> take 4 (fst (cmd_ro sample_env (msg ''!ro 30m spam'' 1001) a_chat alice tg_bob)) =
               [GetDbUser tg_bob, Restrict (tg_id tu) d,
                LogInfo (Restricted (tg_id tu) (tg_id alice) d),
                SaveNewAction alice tu a_chat ''ro'' (Some d) c])
   \<and> (\<exists>d c tu. kick sample_env (tg_id tu) d = Inr ()
         \<and> take 4 (fst (cmd_ban sample_env (msg ''!ro 30m spam'' 1001) a_chat alice tg_bob)) =
               [GetDbUser tg_bob, Kick (tg_id tu) d,
                LogInfo (Kicked (tg_id tu) (tg_id alice) d),
                SaveNewAction alice tu a_chat ''ban'' (Some d) c])"
    by blast
  from dur db r k f a1 a2 g show ?thesis by blast
qed

section \<open>A duration that does not parse\<close>

text \<open>
  Claim C5: when the command text of a mute or a ban has a duration token and the parser
  raises \<open>TimedeltaParseError\<close> on it, the whole run of the handler is one reply, the
  "cannot recognise the time" literal followed by the quoted text of the error; there is no
  platform call and no audit write, and the handler returns the sent reply.
\<close>

theorem moderation_parse_failure_aborts:
  "get_moderator_message_args (msg_text m) = Inr (tok, c) \<and> tok \<noteq> []
     \<and> parse_timedelta_from_text E tok = Inl (TimedeltaParseError s)
   \<longrightarrow> cmd_ro E m ch u t = ([Reply [Lit CannotRecognizeTime, Str (quote_html E s)]], ReturnSent)
     \<and> cmd_ban E m ch u t = ([Reply [Lit CannotRecognizeTime, Str (quote_html E s)]], ReturnSent)"
  by (simp add: cmd_ro_def cmd_ban_def get_duration_def)

theorem moderation_parse_failure_aborts_witness:
  "get_moderator_message_args (msg_text (msg ''!ban 3x<m spam'' 1001)) = Inr (''3x<m'', ''spam'')
   \<and> ''3x<m'' \<noteq> []
   \<and> parse_timedelta_from_text sample_env ''3x<m'' = Inl (TimedeltaParseError ''3x<m'')
   \<and> cmd_ro sample_env (msg ''!ban 3x<m spam'' 1001) a_chat alice tg_bob =
       ([Reply [Lit CannotRecognizeTime, Str ''3x&lt;m'']], ReturnSent)
   \<and> cmd_ban sample_env (msg ''!ban 3x<m spam'' 1001) a_chat alice tg_bob =
       ([Reply [Lit CannotRecognizeTime, Str ''3x&lt;m'']], ReturnSent)"
proof -
  have a: "get_moderator_message_args (msg_text (msg ''!ban 3x<m spam'' 1001)) =
             Inr (''3x<m'', ''spam'')"
    by (simp add: sample_users args_ban_bad)
  have p: "parse_timedelta_from_text sample_env ''3x<m'' = Inl (TimedeltaParseError ''3x<m'')"
    by (simp add: sample_env_fields)
  have q: "quote_html sample_env ''3x<m'' = ''3x&lt;m''"
    by (simp add: sample_env_fields sample_quote_html_def)
  from moderation_parse_failure_aborts
         [of "msg ''!ban 3x<m spam'' 1001" "''3x<m''" "''spam''" sample_env "''3x<m''"
             a_chat alice tg_bob] a p q
  show ?thesis by simp
qed

section \<open>The reply of a ban\<close>

text \<open>
  Claim C6: in a ban that is carried out (the duration parses, the target is resolved, the
  kick and the audit write return), the reply names the target and states the ban, and it
  holds the clause "can return after" with the formatted duration exactly when the
  duration is less than 366 days, the value of \<open>FOREVER_DURATION\<close>.
\<close>

theorem ban_reply_return_clause:
  "get_duration E (msg_text m) = Inr (d, c) \<and> get_db_user_by_tg_user E t = Inr tu
     \<and> kick E (tg_id tu) d = Inr () \<and> save_new_action E u tu ch ''ban'' (Some d) c = Inr ()
   \<longrightarrow> cmd_ban E m ch u t =
         ([GetDbUser t, Kick (tg_id tu) d, LogInfo (Kicked (tg_id tu) (tg_id u) d),
           SaveNewAction u tu ch ''ban'' (Some d) c, Reply (ban_text E tu d)], ReturnNone)
     \<and> ban_text E tu d =
         [Lit Polzovatel, Str (mention_link tu), Lit BannedInChat]
         @ (if d < timedelta_days 366 then [Lit CanReturnAfter, Str (format_timedelta E d)]
            else [])
     \<and> (Lit CanReturnAfter \<in> set (ban_text E tu d) \<longleftrightarrow> d < timedelta_days 366)"
  by (simp add: cmd_ban_def ban_text_def FOREVER_DURATION_def)

lemma get_duration_forever:
  "get_duration sample_env ''!ban forever'' = Inr (timedelta_days 366, [])"
  by (simp add: get_duration_def args_ban_forever sample_env_fields)

theorem ban_reply_return_clause_witness:
  "get_duration sample_env (msg_text (msg ''!ro 30m spam'' 1001)) = Inr (timedelta_minutes 30, ''spam'')
   \<and> get_duration sample_env (msg_text (msg ''!ban forever'' 1001)) = Inr (timedelta_days 366, [])
   \<and> get_db_user_by_tg_user sample_env tg_bob = Inr bob
   \<and> kick sample_env (tg_id bob) (timedelta_minutes 30) = Inr ()
   \<and> kick sample_env (tg_id bob) (timedelta_days 366) = Inr ()
   \<and> save_new_action sample_env alice bob a_chat ''ban'' (Some (timedelta_minutes 30)) ''spam'' = Inr ()
   \<and> save_new_action sample_env alice bob a_chat ''ban'' (Some (timedelta_days 366)) [] = Inr ()
   \<and> cmd_ban sample_env (msg ''!ro 30m spam'' 1001) a_chat alice tg_bob =
        ([GetDbUser tg_bob, Kick 1002 (timedelta_minutes 30),
          LogInfo (Kicked 1002 1001 (timedelta_minutes 30)),
          SaveNewAction alice bob a_chat ''ban'' (Some (timedelta_minutes 30)) ''spam'',
          Reply [Lit Polzovatel, Str ''@bob'', Lit BannedInChat, Lit CanReturnAfter,
                 Str ''30 minutes'']], ReturnNone)
   \<and> cmd_ban sample_env (msg ''!ban forever'' 1001) a_chat alice tg_bob =
        ([GetDbUser tg_bob, Kick 1002 (timedelta_days 366),
          LogInfo (Kicked 1002 1001 (timedelta_days 366)),
          SaveNewAction alice bob a_chat ''ban'' (Some (timedelta_days 366)) [],
          Reply [Lit Polzovatel, Str ''@bob'', Lit BannedInChat]], ReturnNone)"
proof -
  have d1: "get_duration sample_env (msg_text (msg ''!ro 30m spam'' 1001)) =
              Inr (timedelta_minutes 30, ''spam'')"
    by (simp add: sample_users get_duration_30m)
  have d2: "get_duration sample_env (msg_text (msg ''!ban forever'' 1001)) =
              Inr (timedelta_days 366, [])"
    by (simp add: sample_users get_duration_forever)
  have db: "get_db_user_by_tg_user sample_env tg_bob = Inr bob"
    by (simp add: sample_env_fields sample_users)
  have k: "kick sample_env (tg_id bob) x = Inr ()" for x
    by (simp add: sample_env_fields sample_users)
  have s: "save_new_action sample_env alice bob a_chat ''ban'' x y = Inr ()" for x y
    by (simp add: sample_env_fields)
  have lt: "timedelta_minutes 30 < timedelta_days 366"
    by (simp add: timedelta_minutes_def timedelta_days_def)
  note th1 = ban_reply_return_clause
      [of sample_env "msg ''!ro 30m spam'' 1001" "timedelta_minutes 30" "''spam''" tg_bob bob
          alice a_chat]
  note th2 = ban_reply_return_clause
      [of sample_env "msg ''!ban forever'' 1001" "timedelta_days 366" "[]" tg_bob bob
          alice a_chat]
  from th1 d1 db k s
  have "ban_text sample_env bob (timedelta_minutes 30) =
         [Lit Polzovatel, Str (mention_link bob), Lit BannedInChat]
         @ (if timedelta_minutes 30 < timedelta_days 366
            then [Lit CanReturnAfter, Str (format_timedelta sample_env (timedelta_minutes 30))]
            else [])"
    by blast
  with lt have t1: "ban_text sample_env bob (timedelta_minutes 30) =
      [Lit Polzovatel, Str ''@bob'', Lit BannedInChat, Lit CanReturnAfter, Str ''30 minutes'']"
    by (simp add: sample_env_fields sample_users)
  from th2 d2 db k s
  have "ban_text sample_env bob (timedelta_days 366) =
         [Lit Polzovatel, Str (mention_link bob), Lit BannedInChat]
         @ (if timedelta_days 366 < timedelta_days 366
            then [Lit CanReturnAfter, Str (format_timedelta sample_env (timedelta_days 366))]
            else [])"
    by blast
  then have t2: "ban_text sample_env bob (timedelta_days 366) =
      [Lit Polzovatel, Str ''@bob'', Lit BannedInChat]"
    by (simp add: sample_users)
  from th1 d1 db k s
  have "cmd_ban sample_env (msg ''!ro 30m spam'' 1001) a_chat alice tg_bob =
        ([GetDbUser tg_bob, Kick (tg_id bob) (timedelta_minutes 30),
          LogInfo (Kicked (tg_id bob) (tg_id alice) (timedelta_minutes 30)),
          SaveNewAction alice bob a_chat ''ban'' (Some (timedelta_minutes 30)) ''spam'',
          Reply (ban_text sample_env bob (timedelta_minutes 30))], ReturnNone)"
    by blast
  then have r1: "cmd_ban sample_env (msg ''!ro 30m spam'' 1001) a_chat alice tg_bob =
        ([GetDbUser tg_bob, Kick 1002 (timedelta_minutes 30),
          LogInfo (Kicked 1002 1001 (timedelta_minutes 30)),
          SaveNewAction alice bob a_chat ''ban'' (Some (timedelta_minutes 30)) ''spam'',
          Reply [Lit Polzovatel, Str ''@bob'', Lit BannedInChat, Lit CanReturnAfter,
                 Str ''30 minutes'']], ReturnNone)"
    by (simp only: t1 sample_users)
  from th2 d2 db k s
  have "cmd_ban sample_env (msg ''!ban forever'' 1001) a_chat alice tg_bob =
        ([GetDbUser tg_bob, Kick (tg_id bob) (timedelta_days 366),
          LogInfo (Kicked (tg_id bob) (tg_id alice) (timedelta_days 366)),
          SaveNewAction alice bob a_chat ''ban'' (Some (timedelta_days 366)) [],
          Reply (ban_text sample_env bob (timedelta_days 366))], ReturnNone)"
    by blast
  then have r2: "cmd_ban sample_env (msg ''!ban forever'' 1001) a_chat alice tg_bob =
        ([GetDbUser tg_bob, Kick 1002 (timedelta_days 366),
          LogInfo (Kicked 1002 1001 (timedelta_days 366)),
          SaveNewAction alice bob a_chat ''ban'' (Some (timedelta_days 366)) [],
          Reply [Lit Polzovatel, Str ''@bob'', Lit BannedInChat]], ReturnNone)"
    by (simp only: t2 sample_users)
  from d1 d2 db k s r1 r2 show ?thesis by blast
qed

section \<open>A warning\<close>

lemma cmd_warn_trace_shape:
  "\<exists>tu c n. fst (cmd_warn E m ch t u) =
      take n [GetDbUser t, SaveNewAction u tu ch ''warn'' None c,
              Reply [Lit Polzovatel, Str (mention_link tu), Lit OfficialWarning]]"
proof (cases "warn_comment (py_split 1 (msg_text m))")
  case (Inl e)
  then have "fst (cmd_warn E m ch t u) = take 0 [GetDbUser t, SaveNewAction u undefined ch ''warn'' None [],
              Reply [Lit Polzovatel, Str (mention_link undefined), Lit OfficialWarning]]"
    by (simp add: cmd_warn_def)
  then show ?thesis by blast
next
  case c: (Inr c)
  show ?thesis
  proof (cases "get_db_user_by_tg_user E t")
    case (Inl e)
    with c have "fst (cmd_warn E m ch t u) = take 1 [GetDbUser t, SaveNewAction u undefined ch ''warn'' None [],
              Reply [Lit Polzovatel, Str (mention_link undefined), Lit OfficialWarning]]"
      by (simp add: cmd_warn_def)
    then show ?thesis by blast
  next
    case tu: (Inr tu)
    show ?thesis
    proof (cases "save_new_action E u tu ch ''warn'' None c")
      case (Inl e)
      with c tu have "fst (cmd_warn E m ch t u) =
          take 2 [GetDbUser t, SaveNewAction u tu ch ''warn'' None c,
              Reply [Lit Polzovatel, Str (mention_link tu), Lit OfficialWarning]]"
        by (simp add: cmd_warn_def)
      then show ?thesis by blast
    next
      case (Inr x)
      with c tu have "fst (cmd_warn E m ch t u) =
          take 3 [GetDbUser t, SaveNewAction u tu ch ''warn'' None c,
              Reply [Lit Polzovatel, Str (mention_link tu), Lit OfficialWarning]]"
        by (simp add: cmd_warn_def)
      then show ?thesis by blast
    qed
  qed
qed

lemma cmd_warn_no_platform_call:
  "filter is_platform_call (fst (cmd_warn E m ch t u)) = []"
  by (simp add: cmd_warn_def split: sum.splits)

text \<open>
  Claim C7: \<open>cmd_warn\<close> never calls \<open>restrict\<close> or \<open>kick\<close>. Its trace is an initial
  part of: resolving the target, one audit write of kind "warn" with the moderator, the
  target, the chat and the comment, and the acknowledgement reply; it is all three when the
  collaborators return.
\<close>

theorem warn_only_audit_and_reply:
  "filter is_platform_call (fst (cmd_warn E m ch t u)) = []
   \<and> (\<exists>tu c n. fst (cmd_warn E m ch t u) =
         take n [GetDbUser t, SaveNewAction u tu ch ''warn'' None c,
                 Reply [Lit Polzovatel, Str (mention_link tu), Lit OfficialWarning]])
   \<and> (warn_comment (py_split 1 (msg_text m)) = Inr c \<and> get_db_user_by_tg_user E t = Inr tu
        \<and> save_new_action E u tu ch ''warn'' None c = Inr ()
      \<longrightarrow> cmd_warn E m ch t u =
            ([GetDbUser t, SaveNewAction u tu ch ''warn'' None c,
              Reply [Lit Polzovatel, Str (mention_link tu), Lit OfficialWarning]], ReturnNone))"
proof (intro conjI impI)
  show "filter is_platform_call (fst (cmd_warn E m ch t u)) = []"
    by (rule cmd_warn_no_platform_call)
  show "\<exists>tu c n. fst (cmd_warn E m ch t u) =
         take n [GetDbUser t, SaveNewAction u tu ch ''warn'' None c,
                 Reply [Lit Polzovatel, Str (mention_link tu), Lit OfficialWarning]]"
    by (rule cmd_warn_trace_shape)
next
  assume "warn_comment (py_split 1 (msg_text m)) = Inr c \<and> get_db_user_by_tg_user E t = Inr tu
        \<and> save_new_action E u tu ch ''warn'' None c = Inr ()"
  then show "cmd_warn E m ch t u =
            ([GetDbUser t, SaveNewAction u tu ch ''warn'' None c,
              Reply [Lit Polzovatel, Str (mention_link tu), Lit OfficialWarning]], ReturnNone)"
    by (simp add: cmd_warn_def)
qed

lemma warn_comment_be_nice:
  "warn_comment (py_split 1 ''!warn be  nice '') = Inr ''be  nice ''"
  by (simp add: warn_comment_def isspace_def)

theorem warn_only_audit_and_reply_witness:
  "warn_comment (py_split 1 (msg_text (msg ''!warn be  nice '' 1001))) = Inr ''be  nice ''
   \<and> get_db_user_by_tg_user sample_env tg_bob = Inr bob
   \<and> save_new_action sample_env alice bob a_chat ''warn'' None ''be  nice '' = Inr ()
   \<and> cmd_warn sample_env (msg ''!warn be  nice '' 1001) a_chat tg_bob alice =
       ([GetDbUser tg_bob, SaveNewAction alice bob a_chat ''warn'' None ''be  nice '',
         Reply [Lit Polzovatel, Str ''@bob'', Lit OfficialWarning]], ReturnNone)
   \<and> filter is_platform_call
        (fst (cmd_warn sample_env (msg ''!warn be  nice '' 1001) a_chat tg_bob alice)) = []"
proof -
  have c: "warn_comment (py_split 1 (msg_text (msg ''!warn be  nice '' 1001))) = Inr ''be  nice ''"
    by (simp only: sample_users warn_comment_be_nice)
  have db: "get_db_user_by_tg_user sample_env tg_bob = Inr bob"
    by (simp add: sample_env_fields sample_users)
  have s: "save_new_action sample_env alice bob a_chat ''warn'' None ''be  nice '' = Inr ()"
    by (simp add: sample_env_fields)
  note th = warn_only_audit_and_reply
         [of sample_env "msg ''!warn be  nice '' 1001" a_chat tg_bob alice "''be  nice ''" bob]
  from th have quiet: "filter is_platform_call
        (fst (cmd_warn sample_env (msg ''!warn be  nice '' 1001) a_chat tg_bob alice)) = []"
    by blast
  from th c db s have "cmd_warn sample_env (msg ''!warn be  nice '' 1001) a_chat tg_bob alice =
       ([GetDbUser tg_bob, SaveNewAction alice bob a_chat ''warn'' None ''be  nice '',
         Reply [Lit Polzovatel, Str (mention_link bob), Lit OfficialWarning]], ReturnNone)"
    by blast
  then have run: "cmd_warn sample_env (msg ''!warn be  nice '' 1001) a_chat tg_bob alice =
       ([GetDbUser tg_bob, SaveNewAction alice bob a_chat ''warn'' None ''be  nice '',
         Reply [Lit Polzovatel, Str ''@bob'', Lit OfficialWarning]], ReturnNone)"
    by (simp add: sample_users)
  from c db s run quiet show ?thesis by blast
qed

section \<open>The administrators a report mentions\<close>

lemma mentions_loop_eq:
  "mentions_loop E admins acc =
     acc @ concat (map (\<lambda>a. hide_link E (url (member_user a)))
                     (filter (\<lambda>a. \<not> is_bot (member_user a) \<and> need_notify_admin a) admins))"
  by (induction admins arbitrary: acc) simp_all

text \<open>
  Claim C9: the mention string of a report is the concatenation, in the order of the
  administrator list, of the hidden links of exactly those administrators that are not bots
  and have the right to delete messages, the right to restrict members or the status of
  creator; the reply is the thanks, this string and a space.
\<close>

theorem report_mentions_exact:
  "get_administrators E = Inr admins
   \<longrightarrow> get_mentions_admins E =
         Inr (concat (map (\<lambda>a. hide_link E (url (member_user a)))
                (filter (\<lambda>a. \<not> is_bot (member_user a)
                              \<and> (can_delete_messages a = Some True
                                  \<or> can_restrict_members a = Some True
                                  \<or> status a = CREATOR)) admins)))
     \<and> report E m =
         ([LogInfo (ReportFor (from_user_id m) (message_id m)), GetAdministrators,
           Reply [Lit ThanksForReport,
                  Str (concat (map (\<lambda>a. hide_link E (url (member_user a)))
                         (filter (\<lambda>a. \<not> is_bot (member_user a)
                                       \<and> (can_delete_messages a = Some True
                                           \<or> can_restrict_members a = Some True
                                           \<or> status a = CREATOR)) admins))),
                  Str '' '']],
          ReturnNone)"
  by (simp add: report_def get_mentions_admins_def mentions_loop_eq need_notify_admin_def)

theorem report_mentions_exact_witness:
  "get_administrators sample_env = Inr sample_admins
   \<and> get_mentions_admins sample_env = Inr ''<a href=tg://user?id=1001>&#8288;</a>''
   \<and> report sample_env (msg ''!report'' 1002) =
         ([LogInfo (ReportFor 1002 7), GetAdministrators,
           Reply [Lit ThanksForReport, Str ''<a href=tg://user?id=1001>&#8288;</a>'', Str '' '']],
          ReturnNone)"
proof -
  have a: "get_administrators sample_env = Inr sample_admins"
    by (simp add: sample_env_fields)
  have c: "concat (map (\<lambda>a. hide_link sample_env (url (member_user a)))
                (filter (\<lambda>a. \<not> is_bot (member_user a)
                              \<and> (can_delete_messages a = Some True
                                  \<or> can_restrict_members a = Some True
                                  \<or> status a = CREATOR)) sample_admins))
           = ''<a href=tg://user?id=1001>&#8288;</a>''"
    by (simp add: sample_admins_def sample_env_fields tg_alice_def tg_bob_def tg_helper_bot_def)
  from report_mentions_exact [of sample_env sample_admins "msg ''!report'' 1002"] a
  show ?thesis by (simp only: c sample_users simp_thms)
qed

section \<open>Shipping empties the log file\<close>

text \<open>
  Claim C10: a call of \<open>split_text_file\<close> on a file that exists returns its parts and
  leaves the file with the empty content, every other file as it was; a second call reads
  nothing of the old content and returns the header alone.
\<close>

theorem split_text_file_truncates:
  "fs file_name = Some content
   \<longrightarrow> (\<exists>rez. split_text_file E fs file_name = Inr (rez, fs(file_name \<mapsto> [])))
     \<and> split_text_file E (fs(file_name \<mapsto> [])) file_name =
         Inr ([hbold E file_name @ [CHR '':'', CHR 0x0A]], fs(file_name \<mapsto> []))"
  by (simp add: split_text_file_def split: prod.splits)

theorem split_text_file_truncates_witness:
  "[''a.log'' \<mapsto> ''x<y'' @ [CHR 0x0A] @ ''z''] ''a.log'' = Some (''x<y'' @ [CHR 0x0A] @ ''z'')
   \<and> split_text_file sample_env [''a.log'' \<mapsto> ''x<y'' @ [CHR 0x0A] @ ''z''] ''a.log'' =
       Inr ([''<b>a.log</b>:'' @ [CHR 0x0A] @ ''x&lt;y'' @ [CHR 0x0A] @ ''z''], [''a.log'' \<mapsto> []])
   \<and> split_text_file sample_env [''a.log'' \<mapsto> []] ''a.log'' =
       Inr ([''<b>a.log</b>:'' @ [CHR 0x0A]], [''a.log'' \<mapsto> []])"
proof -
  have h: "[''a.log'' \<mapsto> ''x<y'' @ [CHR 0x0A] @ ''z''] ''a.log'' = Some (''x<y'' @ [CHR 0x0A] @ ''z'')"
    by simp
  have first: "split_text_file sample_env [''a.log'' \<mapsto> ''x<y'' @ [CHR 0x0A] @ ''z''] ''a.log'' =
       Inr ([''<b>a.log</b>:'' @ [CHR 0x0A] @ ''x&lt;y'' @ [CHR 0x0A] @ ''z''], [''a.log'' \<mapsto> []])"
    by (simp add: split_text_file_def sample_env_fields sample_quote_html_def
        MAX_MESSAGE_SYMBOLS_def)
  from split_text_file_truncates
         [of "[''a.log'' \<mapsto> ''x<y'' @ [CHR 0x0A] @ ''z'']" "''a.log''"
             "''x<y'' @ [CHR 0x0A] @ ''z''" sample_env] h
  have "split_text_file sample_env [''a.log'' \<mapsto> []] ''a.log'' =
       Inr ([hbold sample_env ''a.log'' @ [CHR '':'', CHR 0x0A]], [''a.log'' \<mapsto> []])"
    by simp
  then have second: "split_text_file sample_env [''a.log'' \<mapsto> []] ''a.log'' =
       Inr ([''<b>a.log</b>:'' @ [CHR 0x0A]], [''a.log'' \<mapsto> []])"
    by (simp add: sample_env_fields sample_quote_html_def)
  from h first second show ?thesis by blast
qed

section \<open>Throttled handlers\<close>

lemma throttled_record:
  assumes "throttled cb key rate f (rl, st) t1 m = ((rl1, st1), r)"
  shows "rl1 = rl((from_user_id m, key) \<mapsto> t1)"
  using assms by (auto simp: throttled_def throttle_def split: if_splits prod.splits)

lemma throttled_within:
  assumes "rl (from_user_id m, key) = Some t1" and "t1 \<le> t2" and "t2 < t1 + rate"
  shows "throttled cb key rate f (rl, st) t2 m =
           ((rl((from_user_id m, key) \<mapsto> t2), st), cb m)"
  using assms by (simp add: throttled_def throttle_def)

lemma throttled_beyond:
  assumes "rl (from_user_id m, key) = Some t1" and "t1 + rate \<le> t2"
  shows "throttled cb key rate f (rl, st) t2 m =
           ((rl((from_user_id m, key) \<mapsto> t2), fst (f st m)), snd (f st m))"
  using assms by (simp add: throttled_def throttle_def split: prod.splits)

lemma throttled_first:
  assumes "rl (from_user_id m, key) = None"
  shows "throttled cb key rate f (rl, st) t m =
           ((rl((from_user_id m, key) \<mapsto> t), fst (f st m)), snd (f st m))"
  using assms by (simp add: throttled_def throttle_def split: prod.splits)


text \<open>
  Claim C4: of two karma-change invocations by the same actor, the second at most 30 seconds
  after the first, the second is suppressed: its whole run is the reply "you change karma
  too often" and the karma store is as the first left it, so there is no call of the karma
  engine and no audit write. When the second comes 30 seconds or more after the first it
  runs \<open>karma_change\<close>, and so does the first when the actor has no earlier record.
\<close>

theorem karma_change_throttle:
  "from_user_id m2 = from_user_id m1
     \<and> dispatch E (rl, st) t1 (KarmaChangeMsg m1 k1 u1 c1) = ((rl1, st1), r1)
   \<longrightarrow> (t1 \<le> t2 \<and> t2 < t1 + 30
        \<longrightarrow> dispatch E (rl1, st1) t2 (KarmaChangeMsg m2 k2 u2 c2) =
              ((rl1((from_user_id m1, ''karma_change'') \<mapsto> t2), st1),
               ([Reply [Lit TooOftenChangeKarma]], ReturnSent)))
     \<and> (t1 + 30 \<le> t2
        \<longrightarrow> dispatch E (rl1, st1) t2 (KarmaChangeMsg m2 k2 u2 c2) =
              ((rl1((from_user_id m1, ''karma_change'') \<mapsto> t2),
                fst (karma_change E st1 m2 k2 u2 c2)),
               snd (karma_change E st1 m2 k2 u2 c2)))
     \<and> (rl (from_user_id m1, ''karma_change'') = None
        \<longrightarrow> (st1, r1) = karma_change E st m1 k1 u1 c1)"
proof (intro impI)
  assume h: "from_user_id m2 = from_user_id m1
     \<and> dispatch E (rl, st) t1 (KarmaChangeMsg m1 k1 u1 c1) = ((rl1, st1), r1)"
  then have same: "from_user_id m2 = from_user_id m1"
    and run: "throttled to_fast_change_karma ''karma_change'' 30
                (\<lambda>st m. karma_change E st m k1 u1 c1) (rl, st) t1 m1 = ((rl1, st1), r1)"
    by (simp_all add: dispatch_def)
  from run have "rl1 = rl((from_user_id m1, ''karma_change'') \<mapsto> t1)"
    by (rule throttled_record)
  with same have rec: "rl1 (from_user_id m2, ''karma_change'') = Some t1"
    by simp
  have within: "dispatch E (rl1, st1) t2 (KarmaChangeMsg m2 k2 u2 c2) =
              ((rl1((from_user_id m1, ''karma_change'') \<mapsto> t2), st1),
               ([Reply [Lit TooOftenChangeKarma]], ReturnSent))"
    if "t1 \<le> t2 \<and> t2 < t1 + 30"
    using that rec same
      throttled_within [where rl = rl1 and m = m2 and key = "''karma_change''" and ?t1.0 = t1
        and ?t2.0 = t2 and rate = 30 and cb = to_fast_change_karma
        and f = "\<lambda>st m. karma_change E st m k2 u2 c2" and st = st1]
    by (simp add: dispatch_def to_fast_change_karma_def)
  have beyond: "dispatch E (rl1, st1) t2 (KarmaChangeMsg m2 k2 u2 c2) =
              ((rl1((from_user_id m1, ''karma_change'') \<mapsto> t2),
                fst (karma_change E st1 m2 k2 u2 c2)),
               snd (karma_change E st1 m2 k2 u2 c2))"
    if "t1 + 30 \<le> t2"
    using that rec same
      throttled_beyond [where rl = rl1 and m = m2 and key = "''karma_change''" and ?t1.0 = t1
        and ?t2.0 = t2 and rate = 30 and cb = to_fast_change_karma
        and f = "\<lambda>st m. karma_change E st m k2 u2 c2" and st = st1]
    by (simp add: dispatch_def)
  have first: "(st1, r1) = karma_change E st m1 k1 u1 c1"
    if "rl (from_user_id m1, ''karma_change'') = None"
    using run that
      throttled_first [where rl = rl and m = m1 and key = "''karma_change''" and t = t1
        and rate = 30 and cb = to_fast_change_karma
        and f = "\<lambda>st m. karma_change E st m k1 u1 c1" and st = st]
    by (simp add: prod_eq_iff)
  from within beyond first
  show "(t1 \<le> t2 \<and> t2 < t1 + 30
        \<longrightarrow> dispatch E (rl1, st1) t2 (KarmaChangeMsg m2 k2 u2 c2) =
              ((rl1((from_user_id m1, ''karma_change'') \<mapsto> t2), st1),
               ([Reply [Lit TooOftenChangeKarma]], ReturnSent)))
     \<and> (t1 + 30 \<le> t2
        \<longrightarrow> dispatch E (rl1, st1) t2 (KarmaChangeMsg m2 k2 u2 c2) =
              ((rl1((from_user_id m1, ''karma_change'') \<mapsto> t2),
                fst (karma_change E st1 m2 k2 u2 c2)),
               snd (karma_change E st1 m2 k2 u2 c2)))
     \<and> (rl (from_user_id m1, ''karma_change'') = None
        \<longrightarrow> (st1, r1) = karma_change E st m1 k1 u1 c1)"
    by blast
qed


lemma bob_plus_alice_first:
  "karma_change sample_env Map.empty (msg ''+'' 1002)
     \<lparr>k_user = tg_alice, k_karma_change = 1\<rparr> bob a_chat =
   ([(1, - 100) \<mapsto> 1],
    [GetOrCreateFromTgUser tg_alice, ChangeOrCreate alice a_chat bob 1,
     Reply [Lit Vy, Lit uvelichili, Lit karmu, Str ''<b>Alice</b>'', Lit do,
            Str ''<b>1.0</b>'', Str '' ('', Str ''+1.0'', Str '')''],
     LogInfo (ChangedKarma 1002 1001)], ReturnNone)"
  by (simp add: karma_change_def karma_change_apply_def can_change_karma_def sample_env_fields
      sample_users sample_change_or_create_def how_change_def sample_quote_html_def)

lemma bob_plus_alice_again:
  "karma_change sample_env [(1, - 100) \<mapsto> 1] (msg ''+'' 1002)
     \<lparr>k_user = tg_alice, k_karma_change = 1\<rparr> bob a_chat =
   ([(1, - 100) \<mapsto> 2],
    [GetOrCreateFromTgUser tg_alice, ChangeOrCreate alice a_chat bob 1,
     Reply [Lit Vy, Lit uvelichili, Lit karmu, Str ''<b>Alice</b>'', Lit do,
            Str ''<b>1.0</b>'', Str '' ('', Str ''+1.0'', Str '')''],
     LogInfo (ChangedKarma 1002 1001)], ReturnNone)"
  by (simp add: karma_change_def karma_change_apply_def can_change_karma_def sample_env_fields
      sample_users sample_change_or_create_def how_change_def sample_quote_html_def)

theorem karma_change_throttle_witness:
  "from_user_id (msg ''+'' 1002) = from_user_id (msg ''+'' 1002)
   \<and> dispatch sample_env (Map.empty, Map.empty) 0
        (KarmaChangeMsg (msg ''+'' 1002) \<lparr>k_user = tg_alice, k_karma_change = 1\<rparr> bob a_chat) =
       (([(1002, ''karma_change'') \<mapsto> 0], [(1, - 100) \<mapsto> 1]),
        ([GetOrCreateFromTgUser tg_alice, ChangeOrCreate alice a_chat bob 1,
          Reply [Lit Vy, Lit uvelichili, Lit karmu, Str ''<b>Alice</b>'', Lit do,
                 Str ''<b>1.0</b>'', Str '' ('', Str ''+1.0'', Str '')''],
          LogInfo (ChangedKarma 1002 1001)], ReturnNone))
   \<and> (0::real) \<le> 10 \<and> (10::real) < 0 + 30
   \<and> dispatch sample_env ([(1002, ''karma_change'') \<mapsto> 0], [(1, - 100) \<mapsto> 1]) 10
        (KarmaChangeMsg (msg ''+'' 1002) \<lparr>k_user = tg_alice, k_karma_change = 1\<rparr> bob a_chat) =
       (([(1002, ''karma_change'') \<mapsto> 10], [(1, - 100) \<mapsto> 1]),
        ([Reply [Lit TooOftenChangeKarma]], ReturnSent))
   \<and> (0::real) + 30 \<le> 30
   \<and> dispatch sample_env ([(1002, ''karma_change'') \<mapsto> 0], [(1, - 100) \<mapsto> 1]) 30
        (KarmaChangeMsg (msg ''+'' 1002) \<lparr>k_user = tg_alice, k_karma_change = 1\<rparr> bob a_chat) =
       (([(1002, ''karma_change'') \<mapsto> 30], [(1, - 100) \<mapsto> 2]),
        ([GetOrCreateFromTgUser tg_alice, ChangeOrCreate alice a_chat bob 1,
          Reply [Lit Vy, Lit uvelichili, Lit karmu, Str ''<b>Alice</b>'', Lit do,
                 Str ''<b>1.0</b>'', Str '' ('', Str ''+1.0'', Str '')''],
          LogInfo (ChangedKarma 1002 1001)], ReturnNone))"
proof -
  let ?m = "msg ''+'' 1002"
  let ?k = "\<lparr>k_user = tg_alice, k_karma_change = 1\<rparr>"
  let ?rl1 = "[(1002::int, ''karma_change'') \<mapsto> (0::real)]"
  let ?st1 = "[(1::int, - 100::int) \<mapsto> (1::real)]"
  let ?tr = "[GetOrCreateFromTgUser tg_alice, ChangeOrCreate alice a_chat bob 1,
          Reply [Lit Vy, Lit uvelichili, Lit karmu, Str ''<b>Alice</b>'', Lit do,
                 Str ''<b>1.0</b>'', Str '' ('', Str ''+1.0'', Str '')''],
          LogInfo (ChangedKarma 1002 1001)]"
  have first: "dispatch sample_env (Map.empty, Map.empty) 0 (KarmaChangeMsg ?m ?k bob a_chat) =
                 ((?rl1, ?st1), (?tr, ReturnNone))"
    by (simp add: dispatch_def throttled_def throttle_def bob_plus_alice_first sample_users)
  have in_window: "(0::real) \<le> 10 \<and> (10::real) < 0 + 30" by simp
  have out_window: "(0::real) + 30 \<le> 30" by simp
  note th10 = karma_change_throttle
    [where ?m1.0 = ?m and ?m2.0 = ?m and E = sample_env and rl = Map.empty and st = Map.empty
       and ?t1.0 = 0 and ?t2.0 = 10 and ?k1.0 = ?k and ?k2.0 = ?k and ?u1.0 = bob and ?u2.0 = bob
       and ?c1.0 = a_chat and ?c2.0 = a_chat and ?rl1.0 = ?rl1 and ?st1.0 = ?st1
       and ?r1.0 = "(?tr, ReturnNone)"]
  note th30 = karma_change_throttle
    [where ?m1.0 = ?m and ?m2.0 = ?m and E = sample_env and rl = Map.empty and st = Map.empty
       and ?t1.0 = 0 and ?t2.0 = 30 and ?k1.0 = ?k and ?k2.0 = ?k and ?u1.0 = bob and ?u2.0 = bob
       and ?c1.0 = a_chat and ?c2.0 = a_chat and ?rl1.0 = ?rl1 and ?st1.0 = ?st1
       and ?r1.0 = "(?tr, ReturnNone)"]
  from th10 first in_window
  have "dispatch sample_env (?rl1, ?st1) 10 (KarmaChangeMsg ?m ?k bob a_chat) =
          ((?rl1((from_user_id ?m, ''karma_change'') \<mapsto> 10), ?st1),
           ([Reply [Lit TooOftenChangeKarma]], ReturnSent))"
    by blast
  then have second: "dispatch sample_env (?rl1, ?st1) 10 (KarmaChangeMsg ?m ?k bob a_chat) =
          (([(1002, ''karma_change'') \<mapsto> 10], ?st1),
           ([Reply [Lit TooOftenChangeKarma]], ReturnSent))"
    by (simp add: sample_users)
  from th30 first out_window
  have "dispatch sample_env (?rl1, ?st1) 30 (KarmaChangeMsg ?m ?k bob a_chat) =
          ((?rl1((from_user_id ?m, ''karma_change'') \<mapsto> 30),
            fst (karma_change sample_env ?st1 ?m ?k bob a_chat)),
           snd (karma_change sample_env ?st1 ?m ?k bob a_chat))"
    by blast
  then have third: "dispatch sample_env (?rl1, ?st1) 30 (KarmaChangeMsg ?m ?k bob a_chat) =
          (([(1002, ''karma_change'') \<mapsto> 30], [(1, - 100) \<mapsto> 2]), (?tr, ReturnNone))"
    by (simp add: sample_users bob_plus_alice_again)
  from first in_window second out_window third show ?thesis by blast
qed

section \<open>Which handlers the 5-second window governs\<close>






end
